theory Spec2Isabelle
  imports Complex_Main "HOL-Library.Log_Nat"
begin

section \<open>Data model of the broker (ibbroker.py)\<close>

text \<open>
  The broker \<^verbatim>\<open>IBBroker\<close> keeps its orders in dictionaries and reacts to the
  callbacks of the gateway. Every callback is modelled as a function from the broker
  state to the new broker state. Python exceptions are values of \<open>py_error\<close>.
  Prices, sizes and commissions are Python floats, see the section on floating point;
  the filled quantities that serve as keys of the ledger are rationals.
\<close>

datatype py_error =
  KeyError | IndexError | ZeroDivisionError | AttributeError | TypeError | ValueError

section \<open>Floating point\<close>

text \<open>
  A Python float is a binary64 number: a finite value, an infinity or a NaN. \<open>Fin x\<close>
  is the float of value \<open>x\<close>; the two zeros are one value, since nothing in the broker
  tells them apart (a division by either raises, both are false and equal).
\<close>

datatype pyfloat = Fin rat | PInf | MInf | NaN

text \<open>
  The result of an operation on finite floats is the exact result rounded by
  \<open>round64\<close>: to the nearest multiple of \<open>2\<^sup>e\<close>, ties to the even multiple, where
  \<open>e\<close> is 52 below the exponent \<open>expo x\<close> of the leading bit and at least -1074 (the
  subnormal numbers). A rounded magnitude \<open>n * 2\<^sup>e\<close> of \<open>2\<^sup>1\<^sup>0\<^sup>2\<^sup>4\<close> or more
  overflows to an infinity; \<open>n\<close> has \<open>bitlen n\<close> bits, so this is the case when
  \<open>e + bitlen n\<close> exceeds 1024.
\<close>

definition pow2 :: "int \<Rightarrow> rat" where
  "pow2 e = (if 0 \<le> e then 2 ^ nat e else 1 / 2 ^ nat (- e))"

definition rne :: "rat \<Rightarrow> int" where
  "rne x = (let f = \<lfloor>x\<rfloor>; d = x - of_int f
            in if d < 1 / 2 then f else if 1 / 2 < d then f + 1
               else if even f then f else f + 1)"

definition expo :: "rat \<Rightarrow> int" where
  "expo x = (let (p, q) = quotient_of \<bar>x\<bar>; e = bitlen p - bitlen q
             in if pow2 e \<le> \<bar>x\<bar> then e else e - 1)"

definition round64 :: "rat \<Rightarrow> pyfloat" where
  "round64 x =
     (if x = 0 then Fin 0
      else let e = max (expo x - 52) (- 1074);
               n = rne (\<bar>x\<bar> / pow2 e)
           in if 1024 < e + bitlen n then (if 0 < x then PInf else MInf)
              else Fin (sgn x * (of_int n * pow2 e)))"

text \<open>
  Sign, negation, absolute value, sum, difference and product follow IEEE 754, as
  Python's do: a NaN gives a NaN, and so do the difference of equal infinities and the
  product of an infinity and zero; an overflow gives an infinity and raises nothing.
\<close>

fun fpos :: "pyfloat \<Rightarrow> bool" where
  "fpos (Fin a) = (0 < a)"
| "fpos PInf = True"
| "fpos MInf = False"
| "fpos NaN = False"

fun fneg :: "pyfloat \<Rightarrow> pyfloat" where
  "fneg (Fin a) = Fin (- a)"
| "fneg PInf = MInf"
| "fneg MInf = PInf"
| "fneg NaN = NaN"

fun fabs :: "pyfloat \<Rightarrow> pyfloat" where
  "fabs (Fin a) = Fin \<bar>a\<bar>"
| "fabs PInf = PInf"
| "fabs MInf = PInf"
| "fabs NaN = NaN"

fun fadd :: "pyfloat \<Rightarrow> pyfloat \<Rightarrow> pyfloat" where
  "fadd (Fin a) (Fin b) = round64 (a + b)"
| "fadd NaN y = NaN"
| "fadd x NaN = NaN"
| "fadd PInf MInf = NaN"
| "fadd MInf PInf = NaN"
| "fadd PInf y = PInf"
| "fadd MInf y = MInf"
| "fadd x PInf = PInf"
| "fadd x MInf = MInf"

definition fsub :: "pyfloat \<Rightarrow> pyfloat \<Rightarrow> pyfloat" where
  "fsub x y = fadd x (fneg y)"

fun fmul :: "pyfloat \<Rightarrow> pyfloat \<Rightarrow> pyfloat" where
  "fmul (Fin a) (Fin b) = round64 (a * b)"
| "fmul NaN y = NaN"
| "fmul x NaN = NaN"
| "fmul x y = (if x = Fin 0 \<or> y = Fin 0 then NaN
               else if fpos x = fpos y then PInf else MInf)"

text \<open>
  Division raises \<^verbatim>\<open>ZeroDivisionError\<close> on a zero divisor, whatever the dividend;
  \<open>fquot\<close> is the quotient for the other divisors.
\<close>

fun fquot :: "pyfloat \<Rightarrow> pyfloat \<Rightarrow> pyfloat" where
  "fquot (Fin a) (Fin b) = round64 (a / b)"
| "fquot NaN y = NaN"
| "fquot x NaN = NaN"
| "fquot (Fin a) y = Fin 0"
| "fquot x (Fin b) = (if fpos x = (0 < b) then PInf else MInf)"
| "fquot PInf y = NaN"
| "fquot MInf y = NaN"

definition fdiv :: "pyfloat \<Rightarrow> pyfloat \<Rightarrow> py_error + pyfloat" where
  "fdiv x y = (if y = Fin 0 then Inl ZeroDivisionError else Inr (fquot x y))"

text \<open>\<^verbatim>\<open>float(x)\<close> gives the float nearest to a number and leaves a float as it is.\<close>

fun to_float :: "pyfloat \<Rightarrow> pyfloat" where
  "to_float (Fin a) = round64 a"
| "to_float x = x"

section \<open>Orders, messages and the state of the broker\<close>

text \<open>
  Modelled from the spec: the status of an Order Record (class \<^verbatim>\<open>OrderBase\<close> of
  the backtrader library, not part of the sources), spec section 3:
  one of Created, Submitted, Accepted, Partial, Completed, Cancelled, Expired, Rejected.
\<close>

datatype status =
  Created | Submitted | Accepted | Partial | Completed | Cancelled | Expired | Rejected

text \<open>The values handed to \<^verbatim>\<open>order.execute\<close> at line 603, in the order of the call.\<close>

record execbit =
  x_dt :: rat
  x_size :: pyfloat
  x_price :: pyfloat
  x_closed :: pyfloat
  x_closedvalue :: pyfloat
  x_closedcomm :: pyfloat
  x_opened :: pyfloat
  x_openedvalue :: pyfloat
  x_openedcomm :: pyfloat
  x_margin :: pyfloat
  x_pnl :: pyfloat
  x_psize :: pyfloat
  x_pprice :: pyfloat

text \<open>
  \<^verbatim>\<open>IBCommInfo\<close> carries the two parameters given at line 381.
\<close>

record comminfo =
  mult :: rat
  stocklike :: bool

text \<open>
  An order (\<^verbatim>\<open>IBOrder\<close>): \<open>willexpire\<close> is the attribute \<^verbatim>\<open>_willexpire\<close>
  (line 136), \<open>data\<close> names the instrument, \<open>comminfo\<close> is \<open>None\<close> until
  \<^verbatim>\<open>addcomminfo\<close> is called (line 397), \<open>executed\<close> collects what
  \<^verbatim>\<open>execute\<close> received.
\<close>

record order =
  orderId :: int
  status :: status
  willexpire :: bool
  data :: string
  comminfo :: "comminfo option"
  executed :: "execbit list"

text \<open>
  Modelled from the spec: the transitions of an Order Record (methods of
  \<^verbatim>\<open>OrderBase\<close> in the backtrader library, not part of the sources), spec
  section 4.1. Each one moves the order to the status it is named after; the guards
  of section 4.3 are the ones written in the callers below. \<open>alive\<close> holds while
  the order is not in a terminal state (section 4.3, cancellation note).
\<close>

definition accept :: "order \<Rightarrow> order" where
  "accept ord = ord\<lparr>status := Accepted\<rparr>"

definition cancel_order :: "order \<Rightarrow> order" where
  "cancel_order ord = ord\<lparr>status := Cancelled\<rparr>"

definition expire :: "order \<Rightarrow> order" where
  "expire ord = ord\<lparr>status := Expired\<rparr>"

definition reject :: "order \<Rightarrow> order" where
  "reject ord = ord\<lparr>status := Rejected\<rparr>"

definition partial :: "order \<Rightarrow> order" where
  "partial ord = ord\<lparr>status := Partial\<rparr>"

definition completed :: "order \<Rightarrow> order" where
  "completed ord = ord\<lparr>status := Completed\<rparr>"

definition alive :: "order \<Rightarrow> bool" where
  "alive ord = (status ord \<in> {Created, Submitted, Partial, Accepted})"

text \<open>
  Modelled from the spec: \<^verbatim>\<open>execute\<close> of \<^verbatim>\<open>OrderBase\<close> (backtrader, not part of
  the sources), spec section 4.4 step 9: the fill is applied to the Order Record, which
  keeps the values it was called with.
\<close>

definition execute :: "order \<Rightarrow> execbit \<Rightarrow> order" where
  "execute ord b = ord\<lparr>executed := executed ord @ [b]\<rparr>"

text \<open>An order-status message of the gateway: \<^verbatim>\<open>msg.orderId\<close>,
  \<^verbatim>\<open>msg.status\<close>, \<^verbatim>\<open>msg.filled\<close>.\<close>

record ordermsg =
  m_orderId :: int
  m_status :: string
  m_filled :: rat

text \<open>An error message: \<^verbatim>\<open>msg.id\<close> (\<open>None\<close> when the message has no such
  attribute) and \<^verbatim>\<open>msg.errorCode\<close>.\<close>

record errormsg =
  e_id :: "int option"
  e_errorCode :: int

text \<open>An execution (\<^verbatim>\<open>ex\<close>) and a commission report (\<^verbatim>\<open>cr\<close>).\<close>

record execution =
  ex_execId :: string
  ex_orderId :: int
  ex_cumQty :: rat
  ex_shares :: pyfloat
  ex_side :: string
  ex_price :: pyfloat
  ex_time :: "string option"

record commreport =
  cr_execId :: string
  cr_commission :: pyfloat
  cr_realizedPNL :: pyfloat

text \<open>An open-order snapshot: the fields read at lines 516 to 521.\<close>

record openorder =
  oo_orderId :: int
  oo_symbol :: string
  oo_status :: string
  oo_clientId :: int
  oo_permId :: string

text \<open>The persisted order data, as returned by \<^verbatim>\<open>_load_order\<close>.\<close>

record order_data =
  od_order_id :: int
  od_dataname :: string
  od_stratname :: string
  od_size :: rat
  od_price :: rat
  od_pricelimit :: rat

text \<open>The position of an instrument, held by the store.\<close>

record position =
  p_size :: pyfloat
  p_price :: pyfloat

text \<open>
  The state of the broker. The dictionaries of lines 297 to 299 are maps;
  \<open>ordstatus\<close> is a \<^verbatim>\<open>defaultdict(dict)\<close>. The queue \<open>notifs\<close> holds the
  clones of the notified orders, \<open>None\<close> being the boundary marker; \<open>tonotify\<close> is
  the deque of order identifiers; \<open>opened_orders\<close> the queue of snapshots, \<open>None\<close>
  being the end marker. What the broker does to its collaborators is recorded as well:
  \<open>positions\<close> and \<open>clientId\<close> belong to the store \<^verbatim>\<open>self.ib\<close>,
  \<open>cancel_requests\<close> lists the calls of \<^verbatim>\<open>self.ib.cancelOrder\<close>, \<open>saved\<close>
  is the directory of persisted orders and \<open>loads\<close> the permanent identifiers looked
  up there, \<open>logged\<close> the exceptions given to \<^verbatim>\<open>logger.exception\<close> and
  \<open>printed\<close> the lines written by \<^verbatim>\<open>print\<close>.
\<close>

datatype printed_line =
  CannotLoad int string string
| OrderDataWrong int int string string

record broker =
  orderbyid :: "int \<rightharpoonup> order"
  executions :: "string \<rightharpoonup> execution"
  ordstatus :: "int \<rightharpoonup> (rat \<rightharpoonup> ordermsg)"
  notifs :: "order option list"
  tonotify :: "int list"
  opened_orders :: "openorder option list"
  positions :: "string \<Rightarrow> position"
  clientId :: int
  cancel_requests :: "int list"
  saved :: "string \<rightharpoonup> order_data"
  loads :: "string list"
  logged :: "py_error list"
  printed :: "printed_line list"

section \<open>The status transition engine\<close>

definition SUBMITTED :: string where "SUBMITTED = ''Submitted''"
definition FILLED :: string where "FILLED = ''Filled''"
definition CANCELLED :: string where "CANCELLED = ''Cancelled''"
definition INACTIVE :: string where "INACTIVE = ''Inactive''"
definition PENDINGSUBMIT :: string where "PENDINGSUBMIT = ''PendingSubmit''"
definition PENDINGCANCEL :: string where "PENDINGCANCEL = ''PendingCancel''"
definition PRESUBMITTED :: string where "PRESUBMITTED = ''PreSubmitted''"
definition APICANCELLED :: string where "APICANCELLED = ''ApiCancelled''"

text \<open>\<^verbatim>\<open>notify\<close> (line 424) puts a clone of the order on the queue.\<close>

definition notify :: "broker \<Rightarrow> order \<Rightarrow> broker" where
  "notify s ord = s\<lparr>notifs := notifs s @ [Some ord]\<rparr>"

text \<open>An order object is mutated in place: the entry of the order table changes.\<close>

definition set_order :: "broker \<Rightarrow> int \<Rightarrow> order \<Rightarrow> broker" where
  "set_order s oid ord = s\<lparr>orderbyid := (orderbyid s)(oid \<mapsto> ord)\<rparr>"

text \<open>\<^verbatim>\<open>self.ordstatus[oid]\<close> on the \<^verbatim>\<open>defaultdict\<close>: a missing key reads as
  the empty dictionary.\<close>

definition ledger :: "broker \<Rightarrow> int \<Rightarrow> (rat \<rightharpoonup> ordermsg)" where
  "ledger s oid = (case ordstatus s oid of None \<Rightarrow> Map.empty | Some l \<Rightarrow> l)"

text \<open>\<^verbatim>\<open>self.ordstatus[msg.orderId][msg.filled] = msg\<close> (lines 504 and 511).\<close>

definition record_status :: "broker \<Rightarrow> ordermsg \<Rightarrow> broker" where
  "record_status s msg =
     s\<lparr>ordstatus := (ordstatus s)(m_orderId msg \<mapsto> (ledger s (m_orderId msg))(m_filled msg \<mapsto> msg))\<rparr>"

definition push_orderstatus :: "broker \<Rightarrow> ordermsg \<Rightarrow> broker" where
  "push_orderstatus s msg =
     (case orderbyid s (m_orderId msg) of
        None \<Rightarrow> s
      | Some ord \<Rightarrow>
          if m_status msg = SUBMITTED \<and> m_filled msg = 0 then
            (if status ord = Accepted then s
             else notify (set_order s (m_orderId msg) (accept ord)) (accept ord))
          else if m_status msg = CANCELLED \<or> m_status msg = APICANCELLED then
            (if status ord \<in> {Cancelled, Expired} then s
             else if willexpire ord
               then notify (set_order s (m_orderId msg) (expire ord)) (expire ord)
               else notify (set_order s (m_orderId msg) (cancel_order ord)) (cancel_order ord))
          else if m_status msg = PENDINGCANCEL then
            (if status ord = Cancelled then s else s)
          else if m_status msg = INACTIVE then
            (if status ord = Rejected then s
             else notify (set_order s (m_orderId msg) (reject ord)) (reject ord))
          else if m_status msg \<in> {SUBMITTED, FILLED} then record_status s msg
          else if m_status msg \<in> {PENDINGSUBMIT, PRESUBMITTED} then
            (if m_filled msg \<noteq> 0 then record_status s msg else s)
          else s)"

definition push_ordererror :: "broker \<Rightarrow> errormsg \<Rightarrow> broker" where
  "push_ordererror s msg =
     (case e_id msg of
        None \<Rightarrow> s
      | Some i \<Rightarrow>
          (case orderbyid s i of
             None \<Rightarrow> s
           | Some ord \<Rightarrow>
               if e_errorCode msg = 202 then
                 (if \<not> alive ord then s
                  else notify (set_order s i (cancel_order ord)) (cancel_order ord))
               else if e_errorCode msg = 201 then
                 (if status ord = Rejected then s
                  else notify (set_order s i (reject ord)) (reject ord))
               else notify (set_order s i (reject ord)) (reject ord)))"

section \<open>Executions and commission reports\<close>

text \<open>\<^verbatim>\<open>push_execution\<close> (line 555) stores the execution under its identifier.\<close>

definition push_execution :: "broker \<Rightarrow> execution \<Rightarrow> broker" where
  "push_execution s ex = s\<lparr>executions := (executions s)(ex_execId ex \<mapsto> ex)\<rparr>"

text \<open>
  What the reconciler calls outside of the sources: \<open>position_update\<close> is
  \<^verbatim>\<open>position.update(size, price)\<close>, giving the updated position and the returned
  tuple \<^verbatim>\<open>(psize, pprice, opened, closed)\<close>; \<open>strptime\<close> is
  \<^verbatim>\<open>date2num(datetime.datetime.strptime(text, format))\<close>, \<open>None\<close> when the text
  does not match the format (\<^verbatim>\<open>ValueError\<close>); \<open>close0\<close> is
  \<^verbatim>\<open>order.data.close[0]\<close>, the current close price of an instrument.
\<close>

record env =
  position_update ::
    "position \<Rightarrow> pyfloat \<Rightarrow> pyfloat \<Rightarrow> position \<times> pyfloat \<times> pyfloat \<times> pyfloat \<times> pyfloat"
  strptime :: "string \<Rightarrow> string \<Rightarrow> rat option"
  close0 :: "string \<Rightarrow> pyfloat"

text \<open>\<^verbatim>\<open>IBCommInfo.getoperationcost\<close> (line 250).\<close>

definition getoperationcost :: "comminfo \<Rightarrow> pyfloat \<Rightarrow> pyfloat \<Rightarrow> pyfloat" where
  "getoperationcost ci sz price = fmul (fabs (to_float sz)) (to_float price)"

text \<open>The split of the commission between closed and opened, lines 574 to 576.\<close>

definition split_commission :: "pyfloat \<Rightarrow> pyfloat \<Rightarrow> pyfloat \<Rightarrow> py_error + pyfloat \<times> pyfloat" where
  "split_commission comm closed_qty sz =
     (case fdiv (fmul comm (to_float closed_qty)) (to_float sz) of
        Inl e \<Rightarrow> Inl e
      | Inr closedcomm \<Rightarrow> Inr (closedcomm, fsub comm closedcomm))"

text \<open>\<^verbatim>\<open>text.split(" ")\<close> and \<^verbatim>\<open>" ".join(words)\<close>.\<close>

fun split_sp :: "string \<Rightarrow> string list" where
  "split_sp [] = [[]]"
| "split_sp (c # cs) =
     (if c = CHR '' '' then [] # split_sp cs
      else (case split_sp cs of [] \<Rightarrow> [[c]] | w # ws \<Rightarrow> (c # w) # ws))"

fun join_sp :: "string list \<Rightarrow> string" where
  "join_sp [] = []"
| "join_sp [w] = w"
| "join_sp (w # ws) = w @ '' '' @ join_sp ws"

text \<open>
  The time of the execution, lines 591 to 597: with more than one word the last word
  (the time zone) is dropped; \<^verbatim>\<open>strptime(None, ...)\<close> raises
  \<^verbatim>\<open>TypeError\<close>.
\<close>

definition parse_time :: "env \<Rightarrow> string option \<Rightarrow> py_error + rat" where
  "parse_time env t =
     (let dt_array = (case t of None \<Rightarrow> [] | Some txt \<Rightarrow> split_sp txt)
      in if dt_array \<noteq> [] \<and> length dt_array > 1 then
           (case strptime env (join_sp (butlast dt_array)) ''%Y%m%d %H:%M:%S'' of
              None \<Rightarrow> Inl ValueError
            | Some dt \<Rightarrow> Inr dt)
         else
           (case t of
              None \<Rightarrow> Inl TypeError
            | Some txt \<Rightarrow>
                (case strptime env txt ''%Y%m%d %H:%M:%S %A'' of
                   None \<Rightarrow> Inl ValueError
                 | Some dt \<Rightarrow> Inr dt)))"

text \<open>
  The body of the \<^verbatim>\<open>try\<close> block of \<^verbatim>\<open>push_commissionreport\<close>, lines 561
  to 616. The result is the exception that left the block, if any, and the state
  reached: what was changed before the exception stays changed.
\<close>

definition reconcile :: "env \<Rightarrow> broker \<Rightarrow> commreport \<Rightarrow> py_error option \<times> broker" where
  "reconcile env s cr =
     (case executions s (cr_execId cr) of
        None \<Rightarrow> (Some KeyError, s)
      | Some ex \<Rightarrow>
          let s1 = s\<lparr>executions := (executions s)(cr_execId cr := None)\<rparr>;
              oid = ex_orderId ex
          in (case orderbyid s1 oid of
                None \<Rightarrow> (Some KeyError, s1)
              | Some ord \<Rightarrow>
                  (case ledger s1 oid (ex_cumQty ex) of
                     None \<Rightarrow>
                       (Some KeyError, s1\<lparr>ordstatus := (ordstatus s1)(oid \<mapsto> ledger s1 oid)\<rparr>)
                   | Some ostatus \<Rightarrow>
                       let s2 = s1\<lparr>ordstatus :=
                                  (ordstatus s1)(oid \<mapsto> (ledger s1 oid)(ex_cumQty ex := None))\<rparr>;
                           pos = positions s2 (data ord);
                           pprice_orig = p_price pos
                       in (case ex_side ex of
                             [] \<Rightarrow> (Some IndexError, s2)
                           | c # _ \<Rightarrow>
                               let sz = (if c = CHR ''B'' then ex_shares ex
                                         else fneg (ex_shares ex));
                                   price = ex_price ex;
                                   (pos', psize, pprice, opened, closed) =
                                      position_update env pos (to_float sz) price;
                                   s3 = s2\<lparr>positions := (positions s2)(data ord := pos')\<rparr>;
                                   comm = cr_commission cr
                               in (case split_commission comm closed sz of
                                     Inl e \<Rightarrow> (Some e, s3)
                                   | Inr (closedcomm, openedcomm) \<Rightarrow>
                                       (case comminfo ord of
                                          None \<Rightarrow> (Some AttributeError, s3)
                                        | Some ci \<Rightarrow>
                                            let closedvalue = getoperationcost ci closed pprice_orig;
                                                openedvalue = getoperationcost ci opened price;
                                                pnl = (if closed \<noteq> Fin 0 then cr_realizedPNL cr
                                                       else Fin 0)
                                            in (case parse_time env (ex_time ex) of
                                                  Inl e \<Rightarrow> (Some e, s3)
                                                | Inr dt \<Rightarrow>
                                                    let margin = close0 env (data ord);
                                                        ord1 = execute ord
                                                          \<lparr>x_dt = dt, x_size = to_float sz,
                                                           x_price = price,
                                                           x_closed = to_float closed,
                                                           x_closedvalue = closedvalue,
                                                           x_closedcomm = closedcomm,
                                                           x_opened = opened,
                                                           x_openedvalue = openedvalue,
                                                           x_openedcomm = openedcomm,
                                                           x_margin = margin, x_pnl = pnl,
                                                           x_psize = to_float psize,
                                                           x_pprice = pprice\<rparr>;
                                                        s4 = (if m_status ostatus = FILLED
                                                              then (set_order s3 oid (completed ord1))
                                                                     \<lparr>ordstatus := (ordstatus s3)(oid := None)\<rparr>
                                                              else set_order s3 oid (partial ord1))
                                                    in (None,
                                                        if oid \<in> set (tonotify s4) then s4
                                                        else s4\<lparr>tonotify := tonotify s4 @ [oid]\<rparr>))))))))"

text \<open>
  \<^verbatim>\<open>push_commissionreport\<close> (line 558): every exception of the block is caught by
  \<^verbatim>\<open>except Exception\<close> and handed to the logger. The result is \<open>Inl\<close> for an
  exception that reaches the caller and \<open>Inr\<close> for a normal return.
\<close>

definition push_commissionreport :: "env \<Rightarrow> broker \<Rightarrow> commreport \<Rightarrow> py_error + broker" where
  "push_commissionreport env s cr =
     (case reconcile env s cr of
        (None, s') \<Rightarrow> Inr s'
      | (Some e, s') \<Rightarrow> Inr (s'\<lparr>logged := logged s' @ [e]\<rparr>))"

section \<open>Deferred notification\<close>

text \<open>
  The loop of \<^verbatim>\<open>push_portupdate\<close> (line 626) over the deque: the lookup of line
  628 has no handler, so a missing order leaves with \<^verbatim>\<open>KeyError\<close>, its identifier
  already taken from the deque.
\<close>

fun drain_tonotify :: "broker \<Rightarrow> int list \<Rightarrow> py_error + broker" where
  "drain_tonotify s [] = Inr (s\<lparr>tonotify := []\<rparr>)"
| "drain_tonotify s (oid # rest) =
     (case orderbyid s oid of
        None \<Rightarrow> Inl KeyError
      | Some ord \<Rightarrow> drain_tonotify (notify s ord) rest)"

definition push_portupdate :: "broker \<Rightarrow> py_error + broker" where
  "push_portupdate s = drain_tonotify s (tonotify s)"

section \<open>Cancellation\<close>

text \<open>\<^verbatim>\<open>cancel\<close> (line 337); the status tested is the one of the order passed in.\<close>

definition cancel :: "broker \<Rightarrow> order \<Rightarrow> broker" where
  "cancel s ord =
     (case orderbyid s (orderId ord) of
        None \<Rightarrow> s
      | Some o_found \<Rightarrow>
          if status ord = Cancelled then s
          else s\<lparr>cancel_requests := cancel_requests s @ [orderId ord]\<rparr>)"

section \<open>Open orders\<close>

text \<open>\<^verbatim>\<open>push_openorder\<close> (line 653); \<open>None\<close> is the end of the snapshots.\<close>

definition push_openorder :: "broker \<Rightarrow> openorder option \<Rightarrow> broker" where
  "push_openorder s msg =
     (case msg of
        None \<Rightarrow> s\<lparr>opened_orders := opened_orders s @ [None]\<rparr>
      | Some m \<Rightarrow>
          let has_order = (oo_orderId m \<in> dom (orderbyid s))
          in if has_order then s
             else s\<lparr>opened_orders := opened_orders s @ [Some m]\<rparr>)"

text \<open>\<^verbatim>\<open>_load_order\<close> (line 677) reads the file of a permanent identifier.\<close>

definition load_order :: "broker \<Rightarrow> string \<Rightarrow> order_data option \<times> broker" where
  "load_order s perm_id = (saved s perm_id, s\<lparr>loads := loads s @ [perm_id]\<rparr>)"

text \<open>
  The order built at line 543: the constructor sets \<^verbatim>\<open>_willexpire\<close> to false
  (line 136) and the identifier from its keyword arguments (line 209); no commission
  info is attached on this path. Modelled from the spec: a new Order Record starts in
  status Created (\<^verbatim>\<open>OrderBase.__init__\<close>, backtrader, not part of the sources).
\<close>

definition IBOrder :: "int \<Rightarrow> string \<Rightarrow> order" where
  "IBOrder order_id dataname =
     \<lparr>orderId = order_id, status = Created, willexpire = False, data = dataname,
      comminfo = None, executed = []\<rparr>"

text \<open>\<^verbatim>\<open>rebuild_iborder_from_open_order\<close> (line 515).\<close>

definition rebuild_iborder_from_open_order :: "broker \<Rightarrow> openorder \<Rightarrow> broker" where
  "rebuild_iborder_from_open_order s msg =
     (if oo_clientId msg \<noteq> clientId s then s
      else
        (case load_order s (oo_permId msg) of
           (None, s1) \<Rightarrow>
             s1\<lparr>printed := printed s1 @
                  [CannotLoad (oo_orderId msg) (oo_symbol msg) (oo_status msg)]\<rparr>
         | (Some order_data, s1) \<Rightarrow>
             if od_order_id order_data \<noteq> oo_orderId msg then
               s1\<lparr>printed := printed s1 @
                    [OrderDataWrong (od_order_id order_data) (oo_orderId msg)
                       (oo_symbol msg) (oo_status msg)]\<rparr>
             else
               let ib_order = IBOrder (oo_orderId msg) (od_dataname order_data)
               in notify (set_order s1 (oo_orderId msg) ib_order) ib_order))"

section \<open>Sequences of events\<close>

datatype event = Status ordermsg | Error errormsg

fun handle :: "broker \<Rightarrow> event \<Rightarrow> broker" where
  "handle s (Status m) = push_orderstatus s m"
| "handle s (Error e) = push_ordererror s e"

definition status_of :: "broker \<Rightarrow> int \<Rightarrow> status option" where
  "status_of s oid = map_option status (orderbyid s oid)"

section \<open>Example states\<close>

text \<open>The broker after \<^verbatim>\<open>__init__\<close> (line 289), connected under a client identifier.\<close>

definition new_broker :: "int \<Rightarrow> broker" where
  "new_broker cid =
     \<lparr>orderbyid = Map.empty, executions = Map.empty, ordstatus = Map.empty,
      notifs = [], tonotify = [], opened_orders = [],
      positions = (\<lambda>_. \<lparr>p_size = Fin 0, p_price = Fin 0\<rparr>), clientId = cid,
      cancel_requests = [], saved = Map.empty, loads = [], logged = [], printed = []\<rparr>"

text \<open>An order of the instrument AAPL as built by \<^verbatim>\<open>_makeorder\<close> (line 383), in a
  given status.\<close>

definition an_order :: "int \<Rightarrow> status \<Rightarrow> order" where
  "an_order oid st =
     \<lparr>orderId = oid, status = st, willexpire = False, data = ''AAPL'',
      comminfo = Some \<lparr>mult = 1, stocklike = True\<rparr>, executed = []\<rparr>"

definition a_status :: "int \<Rightarrow> string \<Rightarrow> rat \<Rightarrow> ordermsg" where
  "a_status oid st q = \<lparr>m_orderId = oid, m_status = st, m_filled = q\<rparr>"

definition an_error :: "int \<Rightarrow> int \<Rightarrow> errormsg" where
  "an_error oid code = \<lparr>e_id = Some oid, e_errorCode = code\<rparr>"

text \<open>
  An execution of an order at price 100, its commission report, and an example of the
  collaborators: every fill opens (the position grows by the fill), every time parses,
  the close price is 100.
\<close>

definition an_execution :: "string \<Rightarrow> int \<Rightarrow> rat \<Rightarrow> rat \<Rightarrow> execution" where
  "an_execution eid oid cum shares =
     \<lparr>ex_execId = eid, ex_orderId = oid, ex_cumQty = cum, ex_shares = Fin shares,
      ex_side = ''BOT'', ex_price = Fin 100, ex_time = Some ''20240102 10:00:00 UTC''\<rparr>"

definition a_report :: "string \<Rightarrow> commreport" where
  "a_report eid = \<lparr>cr_execId = eid, cr_commission = Fin 1, cr_realizedPNL = Fin 0\<rparr>"

definition an_env :: env where
  "an_env =
     \<lparr>position_update =
        (\<lambda>pos sz price.
           (\<lparr>p_size = fadd (p_size pos) sz, p_price = price\<rparr>,
            fadd (p_size pos) sz, price, sz, Fin 0)),
      strptime = (\<lambda>txt fmt. Some 0),
      close0 = (\<lambda>d. Fin 100)\<rparr>"

definition an_openorder :: "int \<Rightarrow> int \<Rightarrow> openorder" where
  "an_openorder oid cid =
     \<lparr>oo_orderId = oid, oo_symbol = ''AAPL'', oo_status = ''Submitted'',
      oo_clientId = cid, oo_permId = ''4711''\<rparr>"

text \<open>
  Example states: order 1 is tracked and Accepted; \<open>s_unmatched\<close> holds an execution
  of 10 shares for it and no status checkpoint, \<open>s_untracked\<close> the execution without
  the order; \<open>s_filled\<close> and \<open>s_partial\<close> hold the
  checkpoint at 10 shares as well, with status Filled and Submitted; \<open>s_zero\<close> holds an
  execution of no shares.
\<close>

definition s_unmatched :: broker where
  "s_unmatched =
     push_execution (set_order (new_broker 7) 1 (an_order 1 Accepted))
       (an_execution ''e1'' 1 10 10)"

definition s_untracked :: broker where
  "s_untracked = push_execution (new_broker 7) (an_execution ''e1'' 1 10 10)"

definition s_filled :: broker where
  "s_filled = push_orderstatus s_unmatched (a_status 1 FILLED 10)"

definition s_partial :: broker where
  "s_partial = push_orderstatus s_unmatched (a_status 1 SUBMITTED 10)"

definition s_zero :: broker where
  "s_zero =
     push_orderstatus
       (push_execution (set_order (new_broker 7) 1 (an_order 1 Accepted))
          (an_execution ''e0'' 1 10 0))
       (a_status 1 FILLED 10)"


section \<open>Basic facts\<close>

lemmas status_names =
  SUBMITTED_def FILLED_def CANCELLED_def INACTIVE_def PENDINGSUBMIT_def
  PENDINGCANCEL_def PRESUBMITTED_def APICANCELLED_def

lemma notify_simps [simp]:
  "orderbyid (notify s ord) = orderbyid s"
  "notifs (notify s ord) = notifs s @ [Some ord]"
  by (simp_all add: notify_def)

lemma set_order_simps [simp]:
  "orderbyid (set_order s oid ord) = (orderbyid s)(oid \<mapsto> ord)"
  "notifs (set_order s oid ord) = notifs s"
  by (simp_all add: set_order_def)

lemma record_status_simps [simp]:
  "orderbyid (record_status s m) = orderbyid s"
  "notifs (record_status s m) = notifs s"
  by (simp_all add: record_status_def)

lemma transition_status [simp]:
  "status (accept ord) = Accepted" "status (cancel_order ord) = Cancelled"
  "status (expire ord) = Expired" "status (reject ord) = Rejected"
  "status (partial ord) = Partial" "status (completed ord) = Completed"
  by (simp_all add: accept_def cancel_order_def expire_def reject_def partial_def completed_def)

lemma cancelled_first:
  assumes "orderbyid s oid = Some ord" "status ord \<notin> {Cancelled, Expired}"
    and "m_orderId m = oid" "m_status m = CANCELLED \<or> m_status m = APICANCELLED"
  shows "push_orderstatus s m =
         notify (set_order s oid (if willexpire ord then expire ord else cancel_order ord))
           (if willexpire ord then expire ord else cancel_order ord)"
  using assms by (auto simp: push_orderstatus_def status_names)

lemma cancelled_again:
  assumes "orderbyid s oid = Some ord" "status ord \<in> {Cancelled, Expired}"
    and "m_orderId m = oid" "m_status m = CANCELLED \<or> m_status m = APICANCELLED"
  shows "push_orderstatus s m = s"
  using assms by (auto simp: push_orderstatus_def status_names)

lemma cancelled_rest:
  assumes "orderbyid s oid = Some ord" "status ord \<in> {Cancelled, Expired}"
    and "\<forall>m \<in> set ms. m_orderId m = oid \<and> (m_status m = CANCELLED \<or> m_status m = APICANCELLED)"
  shows "foldl push_orderstatus s ms = s"
  using assms by (induction ms) (simp_all add: cancelled_again)

section \<open>Terminal states (claim C1)\<close>

lemma status_step:
  assumes "orderbyid s oid = Some ord"
    and "m_orderId m \<noteq> oid \<or>
         (\<not> (m_status m = SUBMITTED \<and> m_filled m = 0) \<and>
          (m_status m = CANCELLED \<or> m_status m = APICANCELLED \<longrightarrow> status ord \<in> {Cancelled, Expired}) \<and>
          (m_status m = INACTIVE \<longrightarrow> status ord = Rejected))"
  shows "status_of (push_orderstatus s m) oid = Some (status ord)"
proof (cases "m_orderId m = oid")
  case True
  then show ?thesis using assms
    by (simp add: push_orderstatus_def status_of_def)
next
  case False
  then show ?thesis using assms(1)
    by (cases "orderbyid s (m_orderId m)") (simp_all add: push_orderstatus_def status_of_def)
qed

lemma error_step:
  assumes "orderbyid s oid = Some ord"
    and "e_id e \<noteq> Some oid \<or> (e_errorCode e = 202 \<and> \<not> alive ord) \<or> status ord = Rejected"
  shows "status_of (push_ordererror s e) oid = Some (status ord)"
proof (cases "e_id e = Some oid")
  case True
  then show ?thesis using assms
    by (auto simp add: push_ordererror_def status_of_def alive_def)
next
  case False
  then show ?thesis using assms(1)
    by (cases "e_id e"; cases "orderbyid s (the (e_id e))") (simp_all add: push_ordererror_def status_of_def)
qed

lemma status_duplicate:
  assumes "orderbyid s oid = Some ord" and "m_orderId m = oid"
    and "(m_status m = CANCELLED \<or> m_status m = APICANCELLED) \<and> status ord \<in> {Cancelled, Expired}
         \<or> m_status m = INACTIVE \<and> status ord = Rejected
         \<or> m_status m = PENDINGCANCEL"
  shows "push_orderstatus s m = s"
  using assms by (auto simp: push_orderstatus_def status_names)

lemma error_duplicate:
  assumes "orderbyid s oid = Some ord" and "e_id e = Some oid"
    and "e_errorCode e = 202 \<and> \<not> alive ord \<or> e_errorCode e = 201 \<and> status ord = Rejected"
  shows "push_ordererror s e = s"
  using assms by (auto simp: push_ordererror_def)

lemma duplicates_discarded:
  assumes "orderbyid s oid = Some ord" and "\<not> alive ord"
    and "\<forall>ev \<in> set evs. case ev of
           Status m \<Rightarrow> m_orderId m = oid \<and>
             ((m_status m = CANCELLED \<or> m_status m = APICANCELLED) \<and> status ord \<in> {Cancelled, Expired}
              \<or> m_status m = INACTIVE \<and> status ord = Rejected
              \<or> m_status m = PENDINGCANCEL)
         | Error e \<Rightarrow> e_id e = Some oid \<and>
             (e_errorCode e = 202 \<or> e_errorCode e = 201 \<and> status ord = Rejected)"
  shows "foldl handle s evs = s"
  using assms
proof (induction evs)
  case Nil
  then show ?case by simp
next
  case (Cons ev evs)
  have "handle s ev = s"
  proof (cases ev)
    case (Status m)
    then show ?thesis using Cons.prems status_duplicate[of s oid ord m] by simp
  next
    case (Error e)
    then show ?thesis using Cons.prems error_duplicate[of s oid ord e] by auto
  qed
  then show ?case using Cons by simp
qed

lemma status_kept:
  assumes "orderbyid s oid = Some ord" and "status ord = st"
    and "st \<in> {Completed, Cancelled, Expired, Rejected}"
    and "\<forall>ev \<in> set evs. case ev of
           Status m \<Rightarrow> m_orderId m \<noteq> oid \<or>
             (\<not> (m_status m = SUBMITTED \<and> m_filled m = 0) \<and>
              (m_status m = CANCELLED \<or> m_status m = APICANCELLED \<longrightarrow> st \<in> {Cancelled, Expired}) \<and>
              (m_status m = INACTIVE \<longrightarrow> st = Rejected))
         | Error e \<Rightarrow> e_id e \<noteq> Some oid \<or> e_errorCode e = 202 \<or> st = Rejected"
  shows "status_of (foldl handle s evs) oid = Some st"
  using assms(1,2,4)
proof (induction evs arbitrary: s ord)
  case Nil
  then show ?case by (simp add: status_of_def)
next
  case (Cons ev evs)
  have na: "\<not> alive ord" using assms(3) Cons.prems(2) by (auto simp: alive_def)
  have "status_of (handle s ev) oid = Some (status ord)"
  proof (cases ev)
    case (Status m)
    then show ?thesis using Cons.prems status_step[of s oid ord m] by simp
  next
    case (Error e)
    then show ?thesis using Cons.prems na error_step[of s oid ord e] by auto
  qed
  then obtain ord' where o': "orderbyid (handle s ev) oid = Some ord'" "status ord' = st"
    using Cons.prems(2) by (auto simp: status_of_def)
  show ?case using Cons.IH[OF o'] Cons.prems(3) by simp
qed

text \<open>
  Claim C1 as stated fails: a \<^verbatim>\<open>Cancelled\<close> status event for a tracked order that
  is Completed passes the guard of line 467, which tests for Cancelled and Expired only,
  and \<^verbatim>\<open>order.cancel()\<close> moves the order from Completed to Cancelled.
\<close>

theorem completed_order_revived:
  "status_of (set_order (new_broker 0) 1 (an_order 1 Completed)) 1 = Some Completed
   \<and> status_of (push_orderstatus (set_order (new_broker 0) 1 (an_order 1 Completed))
        (a_status 1 CANCELLED 0)) 1 = Some Cancelled"
  by (simp add: status_of_def push_orderstatus_def a_status_def an_order_def status_names cancel_order_def)

text \<open>
  Claim C1, amended. For a tracked order in one of the statuses Completed, Cancelled,
  Expired, Rejected: the status is kept by every sequence of status and error events in
  which each event for this order is neither Submitted with no fill, nor Cancelled or
  ApiCancelled unless the order is Cancelled or Expired, nor Inactive unless the order
  is Rejected, nor an error with a code other than 202 unless the order is Rejected.
  Moreover the events that fail a duplicate guard (Cancelled or ApiCancelled on a
  Cancelled or Expired order, Inactive on a Rejected order, PendingCancel, error 202,
  error 201 on a Rejected order) leave the whole state of the broker as it is.
\<close>

theorem terminal_status_kept:
  assumes "orderbyid s oid = Some ord"
    and "status ord \<in> {Completed, Cancelled, Expired, Rejected}"
  shows "((\<forall>ev \<in> set evs. case ev of
             Status m \<Rightarrow> m_orderId m \<noteq> oid \<or>
               (\<not> (m_status m = SUBMITTED \<and> m_filled m = 0) \<and>
                (m_status m = CANCELLED \<or> m_status m = APICANCELLED \<longrightarrow>
                   status ord \<in> {Cancelled, Expired}) \<and>
                (m_status m = INACTIVE \<longrightarrow> status ord = Rejected))
           | Error e \<Rightarrow> e_id e \<noteq> Some oid \<or> e_errorCode e = 202 \<or> status ord = Rejected)
          \<longrightarrow> status_of (foldl handle s evs) oid = Some (status ord))
       \<and> ((\<forall>ev \<in> set evs. case ev of
             Status m \<Rightarrow> m_orderId m = oid \<and>
               ((m_status m = CANCELLED \<or> m_status m = APICANCELLED) \<and>
                   status ord \<in> {Cancelled, Expired}
                \<or> m_status m = INACTIVE \<and> status ord = Rejected
                \<or> m_status m = PENDINGCANCEL)
           | Error e \<Rightarrow> e_id e = Some oid \<and>
               (e_errorCode e = 202 \<or> e_errorCode e = 201 \<and> status ord = Rejected))
          \<longrightarrow> foldl handle s evs = s)"
proof -
  have na: "\<not> alive ord" using assms(2) by (auto simp: alive_def)
  show ?thesis
    using status_kept[OF assms(1) refl assms(2), of evs]
      duplicates_discarded[OF assms(1) na, of evs]
    by blast
qed

theorem terminal_status_kept_witness:
  "status_of (foldl handle (set_order (new_broker 0) 1 (an_order 1 Cancelled))
      [Status (a_status 1 CANCELLED 0), Status (a_status 1 FILLED 10),
       Error (an_error 1 202), Status (a_status 2 SUBMITTED 0)]) 1 = Some Cancelled
   \<and> foldl handle (set_order (new_broker 0) 1 (an_order 1 Cancelled))
      [Status (a_status 1 APICANCELLED 0), Error (an_error 1 202),
       Status (a_status 1 PENDINGCANCEL 0)]
     = set_order (new_broker 0) 1 (an_order 1 Cancelled)"
proof -
  let ?s = "set_order (new_broker 0) 1 (an_order 1 Cancelled)"
  have t: "orderbyid ?s 1 = Some (an_order 1 Cancelled)" by simp
  have c: "status (an_order 1 Cancelled) \<in> {Completed, Cancelled, Expired, Rejected}"
    by (simp add: an_order_def)
  have st: "status (an_order 1 Cancelled) = Cancelled" by (simp add: an_order_def)
  note th = terminal_status_kept[OF t c]
  have a: "status_of (foldl handle ?s
      [Status (a_status 1 CANCELLED 0), Status (a_status 1 FILLED 10),
       Error (an_error 1 202), Status (a_status 2 SUBMITTED 0)]) 1 = Some (status (an_order 1 Cancelled))"
    by (rule th[THEN conjunct1, THEN mp])
       (simp add: a_status_def an_error_def status_names st)
  have b: "foldl handle ?s
      [Status (a_status 1 APICANCELLED 0), Error (an_error 1 202),
       Status (a_status 1 PENDINGCANCEL 0)] = ?s"
    by (rule th[THEN conjunct2, THEN mp])
       (simp add: a_status_def an_error_def status_names st)
  show ?thesis using a b st by simp
qed

section \<open>Duplicate cancellations (claim C3)\<close>

text \<open>
  Claim C3: for a tracked order that is neither Cancelled nor Expired, a non-empty
  sequence of Cancelled or ApiCancelled status events for this order has the effect of
  its first event alone: the order is moved once, by \<^verbatim>\<open>expire\<close> if its
  \<^verbatim>\<open>_willexpire\<close> flag is set and by \<^verbatim>\<open>cancel\<close> otherwise, one notification
  is put on the queue, and all further events change nothing.
\<close>

theorem cancelled_events_once:
  assumes "orderbyid s oid = Some ord" and "status ord \<notin> {Cancelled, Expired}"
    and "\<forall>m \<in> set (m0 # ms).
           m_orderId m = oid \<and> (m_status m = CANCELLED \<or> m_status m = APICANCELLED)"
  shows "foldl push_orderstatus s (m0 # ms) =
           notify (set_order s oid (if willexpire ord then expire ord else cancel_order ord))
             (if willexpire ord then expire ord else cancel_order ord)
         \<and> foldl push_orderstatus s (m0 # ms) = push_orderstatus s m0
         \<and> notifs (foldl push_orderstatus s (m0 # ms)) =
             notifs s @ [Some (if willexpire ord then expire ord else cancel_order ord)]
         \<and> status_of (foldl push_orderstatus s (m0 # ms)) oid =
             Some (if willexpire ord then Expired else Cancelled)"
proof -
  let ?ord' = "if willexpire ord then expire ord else cancel_order ord"
  let ?s' = "notify (set_order s oid ?ord') ?ord'"
  have first: "push_orderstatus s m0 = ?s'"
    using assms cancelled_first[of s oid ord m0] by simp
  have tracked: "orderbyid ?s' oid = Some ?ord'" by simp
  have fin: "status ?ord' \<in> {Cancelled, Expired}" by simp
  have rest: "\<forall>m \<in> set ms. m_orderId m = oid \<and> (m_status m = CANCELLED \<or> m_status m = APICANCELLED)"
    using assms(3) by simp
  have all: "foldl push_orderstatus s (m0 # ms) = ?s'"
    using cancelled_rest[OF tracked fin rest] first by simp
  show ?thesis
    unfolding all first by (simp add: status_of_def)
qed

theorem cancelled_events_once_witness:
  "foldl push_orderstatus (set_order (new_broker 0) 1 (an_order 1 Accepted))
     [a_status 1 CANCELLED 0, a_status 1 APICANCELLED 0, a_status 1 CANCELLED 0]
   = notify (set_order (set_order (new_broker 0) 1 (an_order 1 Accepted)) 1 (cancel_order (an_order 1 Accepted)))
       (cancel_order (an_order 1 Accepted))"
proof -
  have "orderbyid (set_order (new_broker 0) 1 (an_order 1 Accepted)) 1 = Some (an_order 1 Accepted)"
    by simp
  moreover have "status (an_order 1 Accepted) \<notin> {Cancelled, Expired}"
    by (simp add: an_order_def)
  moreover have "\<forall>m \<in> set [a_status 1 CANCELLED 0, a_status 1 APICANCELLED 0, a_status 1 CANCELLED 0].
     m_orderId m = 1 \<and> (m_status m = CANCELLED \<or> m_status m = APICANCELLED)"
    by (simp add: a_status_def)
  ultimately show ?thesis
    using cancelled_events_once[of "set_order (new_broker 0) 1 (an_order 1 Accepted)" 1
        "an_order 1 Accepted" "a_status 1 CANCELLED 0" "[a_status 1 APICANCELLED 0, a_status 1 CANCELLED 0]"]
    by (simp add: an_order_def)
qed

section \<open>Rounding\<close>

text \<open>
  The error of \<open>round64\<close> on a finite result is at most \<open>2\<^sup>-\<^sup>5\<^sup>3\<close> relative to the
  number, or \<open>2\<^sup>-\<^sup>1\<^sup>0\<^sup>7\<^sup>5\<close> for a subnormal result: the exponent found by \<open>expo\<close>
  brackets the number, and the significand is rounded by at most one half. The test for
  overflow in \<open>round64\<close> compares the rounded magnitude with \<open>2\<^sup>1\<^sup>0\<^sup>2\<^sup>4\<close>.
\<close>

lemma pow2_powi: "pow2 e = 2 powi e"
  by (simp add: pow2_def power_int_def inverse_eq_divide power_divide)

lemma pow2_pos [simp]: "0 < pow2 e"
  by (simp add: pow2_powi)

lemma pow2_add: "pow2 (a + b) = pow2 a * pow2 b"
  by (simp add: pow2_powi power_int_add)

lemma pow2_diff: "pow2 (a - b) = pow2 a / pow2 b"
  by (simp add: pow2_powi power_int_diff)

lemma pow2_nat: "0 \<le> e \<Longrightarrow> pow2 e = 2 ^ nat e"
  by (simp add: pow2_def)

lemma pow2_1: "pow2 1 = 2" and pow2_0: "pow2 0 = 1"
  by (simp_all add: pow2_def)

lemma bitlen_rat_bounds:
  assumes "0 < p"
  shows "pow2 (bitlen p - 1) \<le> of_int p" and "of_int p < pow2 (bitlen p)"
proof -
  have b1: "1 \<le> bitlen p" using assms by (simp add: bitlen_alt_def)
  from bitlen_bounds[OF assms]
  have lo: "(2::int) ^ nat (bitlen p - 1) \<le> p" and hi: "p < 2 ^ nat (bitlen p)" by simp_all
  have "(of_int ((2::int) ^ nat (bitlen p - 1)) :: rat) \<le> of_int p"
    using lo by (simp only: of_int_le_iff)
  then show "pow2 (bitlen p - 1) \<le> of_int p"
    using b1 by (simp add: pow2_nat)
  have "(of_int p :: rat) < of_int ((2::int) ^ nat (bitlen p))"
    using hi by (simp only: of_int_less_iff)
  then show "of_int p < pow2 (bitlen p)"
    using b1 by (simp add: pow2_nat)
qed

lemma expo_bounds:
  assumes "x \<noteq> 0"
  shows "pow2 (expo x) \<le> \<bar>x\<bar>" and "\<bar>x\<bar> < pow2 (expo x + 1)"
proof -
  obtain p q where pq: "quotient_of \<bar>x\<bar> = (p, q)" by (cases "quotient_of \<bar>x\<bar>")
  have q: "0 < q" using pq by (rule quotient_of_denom_pos)
  have x: "\<bar>x\<bar> = of_int p / of_int q" using pq by (rule quotient_of_div)
  have p: "0 < p"
  proof -
    have "0 < \<bar>x\<bar>" using assms by simp
    then have "0 < (of_int p :: rat) / of_int q" using x by simp
    then show ?thesis using q by (simp add: zero_less_divide_iff)
  qed
  define e where "e = bitlen p - bitlen q"
  have qr: "(0::rat) < of_int q" using q by simp
  have lo: "pow2 (e - 1) \<le> \<bar>x\<bar>"
  proof -
    have "pow2 (e - 1) = pow2 (bitlen p - 1) / pow2 (bitlen q)"
      by (simp add: e_def pow2_diff[symmetric] algebra_simps)
    also have "\<dots> \<le> of_int p / pow2 (bitlen q)"
      by (rule divide_right_mono[OF bitlen_rat_bounds(1)[OF p]]) (simp add: less_imp_le)
    also have "\<dots> \<le> of_int p / of_int q"
      by (rule frac_le) (use bitlen_rat_bounds(2)[OF q] p qr in simp_all)
    finally show ?thesis using x by simp
  qed
  have hi: "\<bar>x\<bar> < pow2 (e + 1)"
  proof -
    have "of_int p / of_int q < pow2 (bitlen p) / (of_int q :: rat)"
      by (rule divide_strict_right_mono[OF bitlen_rat_bounds(2)[OF p] qr])
    also have "\<dots> \<le> pow2 (bitlen p) / pow2 (bitlen q - 1)"
      by (rule frac_le) (use bitlen_rat_bounds(1)[OF q] in \<open>simp_all add: less_imp_le\<close>)
    also have "\<dots> = pow2 (e + 1)"
      by (simp add: e_def pow2_diff[symmetric] algebra_simps)
    finally show ?thesis using x by simp
  qed
  have ex: "expo x = (if pow2 e \<le> \<bar>x\<bar> then e else e - 1)"
    by (simp add: expo_def pq e_def Let_def)
  show "pow2 (expo x) \<le> \<bar>x\<bar>" using ex lo by simp
  show "\<bar>x\<bar> < pow2 (expo x + 1)" using ex hi by (auto simp: not_le)
qed


lemma pow2_nz [simp]: "pow2 e \<noteq> 0"
  by (simp add: pow2_powi)

lemma abs_pow2 [simp]: "\<bar>pow2 e\<bar> = pow2 e"
  by (simp add: abs_of_pos)

lemma pow2_nonneg [simp]: "0 \<le> pow2 e"
  by (rule less_imp_le) (rule pow2_pos)

lemma pow2_mono: "a \<le> b \<Longrightarrow> pow2 a \<le> pow2 b"
  by (simp add: pow2_powi power_int_increasing)

lemma round64_zero [simp]: "round64 0 = Fin 0"
  by (simp add: round64_def)



lemma overflow_test:
  assumes "0 < n"
  shows "(pow2 1024 \<le> of_int n * pow2 e) = (1024 < e + bitlen n)"
proof
  assume "1024 < e + bitlen n"
  then have "pow2 1024 \<le> pow2 (bitlen n - 1 + e)" by (intro pow2_mono) simp
  also have "\<dots> = pow2 (bitlen n - 1) * pow2 e" by (rule pow2_add)
  also have "\<dots> \<le> of_int n * pow2 e"
    by (rule mult_right_mono[OF bitlen_rat_bounds(1)[OF assms]]) simp
  finally show "pow2 1024 \<le> of_int n * pow2 e" .
next
  assume a: "pow2 1024 \<le> of_int n * pow2 e"
  show "1024 < e + bitlen n"
  proof (rule ccontr)
    assume "\<not> 1024 < e + bitlen n"
    then have le: "bitlen n + e \<le> 1024" by simp
    have "of_int n * pow2 e < pow2 (bitlen n) * pow2 e"
      by (rule mult_strict_right_mono[OF bitlen_rat_bounds(2)[OF assms]]) simp
    also have "\<dots> = pow2 (bitlen n + e)" by (rule pow2_add[symmetric])
    also have "\<dots> \<le> pow2 1024" by (rule pow2_mono[OF le])
    finally show False using a by simp
  qed
qed

text \<open>
  Below the smallest subnormal number a result underflows to zero, and from
  \<open>2\<^sup>1\<^sup>0\<^sup>2\<^sup>4\<close> on it overflows: the quotient of 5e-324 by 3 is 0.0, and four times
  \<open>2\<^sup>1\<^sup>0\<^sup>2\<^sup>3\<close> is an infinity, as in Python.
\<close>

lemma pow2_strict_mono: "a < b \<Longrightarrow> pow2 a < pow2 b"
  by (simp add: pow2_powi power_int_strict_increasing)

lemma round64_underflow:
  assumes "\<bar>x\<bar> < pow2 (- 1075)"
  shows "round64 x = Fin 0"
proof (cases "x = 0")
  case True
  then show ?thesis by simp
next
  case False
  have lt: "pow2 (expo x) < pow2 (- 1075)"
    using expo_bounds(1)[OF False] assms by simp
  have ex: "expo x < - 1075"
  proof (rule ccontr)
    assume "\<not> expo x < - 1075"
    then have "pow2 (- 1075) \<le> pow2 (expo x)" by (intro pow2_mono) simp
    then show False using lt by simp
  qed
  then have e: "max (expo x - 52) (- 1074) = - 1074" by simp
  define m where "m = \<bar>x\<bar> / pow2 (- 1074)"
  have "pow2 (- 1075) = pow2 (- 1074) * (1 / 2)" by (simp add: pow2_def)
  then have "m < 1 / 2"
    using assms by (simp add: m_def pos_divide_less_eq mult.commute)
  moreover have "0 \<le> m" by (simp add: m_def)
  ultimately have "\<lfloor>m\<rfloor> = 0" and "m < 1 / 2"
    by (simp_all add: floor_eq_iff)
  then have "rne m = 0"
    by (simp add: rne_def Let_def)
  then show ?thesis
    using False by (simp add: round64_def e m_def[symmetric] Let_def)
qed

lemma rne_ge_floor: "\<lfloor>y\<rfloor> \<le> rne y"
  by (simp add: rne_def Let_def)

lemma round64_overflow:
  assumes "pow2 1024 \<le> \<bar>x\<bar>"
  shows "round64 x = (if 0 < x then PInf else MInf)"
proof -
  have "0 < pow2 1024" by simp
  then have "0 < \<bar>x\<bar>" using assms by (rule less_le_trans)
  then have nz: "x \<noteq> 0" by simp
  have lt: "pow2 1024 < pow2 (expo x + 1)"
    using expo_bounds(2)[OF nz] assms by simp
  have ex: "1024 \<le> expo x"
  proof (rule ccontr)
    assume "\<not> 1024 \<le> expo x"
    then have "pow2 (expo x + 1) \<le> pow2 1024" by (intro pow2_mono) simp
    then show False using lt by simp
  qed
  define e where "e = expo x - 52"
  have e: "max (expo x - 52) (- 1074) = e" using ex by (simp add: e_def)
  define n where "n = rne (\<bar>x\<bar> / pow2 e)"
  have "pow2 52 = pow2 (expo x) / pow2 e" by (simp add: e_def pow2_diff[symmetric])
  also have "\<dots> \<le> \<bar>x\<bar> / pow2 e"
    by (rule divide_right_mono[OF expo_bounds(1)[OF nz]]) simp
  finally have "(of_int (2 ^ 52) :: rat) \<le> \<bar>x\<bar> / pow2 e" by (simp add: pow2_def)
  then have f: "2 ^ 52 \<le> \<lfloor>\<bar>x\<bar> / pow2 e\<rfloor>" by (simp only: le_floor_iff)
  have n52: "2 ^ 52 \<le> n" unfolding n_def by (rule order_trans[OF f rne_ge_floor])
  have "53 \<le> bitlen n" using n52 by (simp add: bitlen_ge_iff_power)
  then have "1024 < e + bitlen n" using ex by (simp add: e_def)
  then show ?thesis using nz by (simp add: round64_def e n_def[symmetric] Let_def)
qed

lemma quotient_underflows: "fquot (Fin (pow2 (- 1074))) (Fin 3) = Fin 0"
proof -
  have h: "pow2 (- 1074) = 2 * pow2 (- 1075)"
    using pow2_add[of 1 "- 1075"] by (simp add: pow2_1)
  have "0 < pow2 (- 1075)" by simp
  then have "\<bar>pow2 (- 1074) / 3\<bar> < pow2 (- 1075)"
    unfolding h by (simp add: abs_mult)
  then show ?thesis by (simp add: round64_underflow)
qed

lemma product_overflows: "fmul (Fin (pow2 1023)) (Fin 4) = PInf"
proof -
  have h: "pow2 1023 * 4 = pow2 1025"
    using pow2_add[of 1023 2] by (simp add: pow2_def)
  have "pow2 1024 \<le> pow2 1025" by (rule pow2_mono) simp
  then have "pow2 1024 \<le> \<bar>pow2 1023 * 4\<bar>" unfolding h by simp
  then have "round64 (pow2 1023 * 4) = PInf"
    using round64_overflow[of "pow2 1023 * 4"] by simp
  then show ?thesis by simp
qed

lemma round64_examples:
  "round64 1 = Fin 1" "round64 10 = Fin 10" "round64 100 = Fin 100"
  by code_simp+




lemma split_commission_zero:
  "to_float sz = Fin 0 \<Longrightarrow> split_commission comm c sz = Inl ZeroDivisionError"
  by (simp add: split_commission_def fdiv_def)



section \<open>The commission reconciler\<close>

lemma ledger_executions [simp]:
  "ledger (s\<lparr>executions := x\<rparr>) = ledger s"
  by (simp add: ledger_def fun_eq_iff)

lemma reconcile_no_execution:
  "executions s (cr_execId cr) = None \<Longrightarrow> reconcile env s cr = (Some KeyError, s)"
  by (simp add: reconcile_def)

lemma reconcile_no_order:
  "executions s (cr_execId cr) = Some ex \<Longrightarrow> orderbyid s (ex_orderId ex) = None \<Longrightarrow>
   reconcile env s cr = (Some KeyError, s\<lparr>executions := (executions s)(cr_execId cr := None)\<rparr>)"
  by (simp add: reconcile_def)

lemma reconcile_no_ledger:
  "executions s (cr_execId cr) = Some ex \<Longrightarrow> orderbyid s (ex_orderId ex) = Some ord \<Longrightarrow>
   ledger s (ex_orderId ex) (ex_cumQty ex) = None \<Longrightarrow>
   reconcile env s cr =
     (Some KeyError,
      s\<lparr>executions := (executions s)(cr_execId cr := None),
        ordstatus := (ordstatus s)(ex_orderId ex \<mapsto> ledger s (ex_orderId ex))\<rparr>)"
  by (simp add: reconcile_def Let_def)

lemma reconcile_failure_frame:
  assumes "reconcile env s cr = (Some e, s1)"
  shows "orderbyid s1 = orderbyid s \<and> tonotify s1 = tonotify s \<and> notifs s1 = notifs s
         \<and> logged s1 = logged s"
  using assms unfolding reconcile_def
  by (auto simp: Let_def split: option.splits list.splits sum.splits prod.splits if_splits)

lemma reconcile_success_notify:
  assumes "reconcile env s cr = (None, s1)" and "executions s (cr_execId cr) = Some ex"
  shows "notifs s1 = notifs s
         \<and> tonotify s1 = (if ex_orderId ex \<in> set (tonotify s) then tonotify s
                          else tonotify s @ [ex_orderId ex])
         \<and> dom (orderbyid s1) = dom (orderbyid s)
         \<and> ex_orderId ex \<in> dom (orderbyid s)
         \<and> logged s1 = logged s"
  using assms unfolding reconcile_def
  by (auto simp: Let_def set_order_def split: option.splits list.splits sum.splits prod.splits if_splits)

lemma reconcile_success_status:
  assumes "reconcile env s cr = (None, s1)" and "executions s (cr_execId cr) = Some ex"
    and "ledger s (ex_orderId ex) (ex_cumQty ex) = Some ostatus"
  shows "(m_status ostatus = FILLED \<longrightarrow>
            status_of s1 (ex_orderId ex) = Some Completed \<and> ordstatus s1 (ex_orderId ex) = None)
       \<and> (m_status ostatus \<noteq> FILLED \<longrightarrow>
            status_of s1 (ex_orderId ex) = Some Partial
            \<and> ordstatus s1 (ex_orderId ex) = Some ((ledger s (ex_orderId ex))(ex_cumQty ex := None)))"
  using assms unfolding reconcile_def
  by (auto simp: Let_def set_order_def status_of_def split: option.splits list.splits sum.splits prod.splits if_splits)

lemma drain_all:
  "set ids \<subseteq> dom (orderbyid s) \<Longrightarrow>
   drain_tonotify s ids =
     Inr (s\<lparr>notifs := notifs s @ map (\<lambda>i. Some (the (orderbyid s i))) ids, tonotify := []\<rparr>)"
proof (induction ids arbitrary: s)
  case Nil
  then show ?case by simp
next
  case (Cons i ids)
  then obtain ord where o: "orderbyid s i = Some ord" by auto
  have "set ids \<subseteq> dom (orderbyid (notify s ord))" using Cons.prems by simp
  from Cons.IH[OF this] o show ?case by (simp add: notify_def)
qed

lemma reconcile_zero_size:
  assumes "executions s (cr_execId cr) = Some ex" and "orderbyid s (ex_orderId ex) = Some ord"
    and "ledger s (ex_orderId ex) (ex_cumQty ex) = Some ostatus"
    and "ex_side ex \<noteq> []" and "ex_shares ex = Fin 0"
  shows "fst (reconcile env s cr) = Some ZeroDivisionError"
  using assms unfolding reconcile_def
  by (auto simp: Let_def split_commission_zero split: list.splits prod.splits)

lemma s_zero_facts:
  "executions s_zero ''e0'' = Some (an_execution ''e0'' 1 10 0)"
  "orderbyid s_zero 1 = Some (an_order 1 Accepted)"
  "ledger s_zero 1 10 = Some (a_status 1 FILLED 10)"
  "logged s_zero = []"
  by (simp_all add: s_zero_def push_orderstatus_def status_names record_status_def
      push_execution_def set_order_def new_broker_def an_execution_def a_status_def ledger_def)

lemma s_filled_facts:
  "executions s_filled ''e1'' = Some (an_execution ''e1'' 1 10 10)"
  "orderbyid s_filled 1 = Some (an_order 1 Accepted)"
  "ledger s_filled 1 10 = Some (a_status 1 FILLED 10)"
  "tonotify s_filled = []"
  by (simp_all add: s_filled_def s_unmatched_def push_orderstatus_def status_names
      record_status_def push_execution_def set_order_def new_broker_def an_execution_def
      a_status_def ledger_def)

lemma s_partial_facts:
  "executions s_partial ''e1'' = Some (an_execution ''e1'' 1 10 10)"
  "orderbyid s_partial 1 = Some (an_order 1 Accepted)"
  "ledger s_partial 1 10 = Some (a_status 1 SUBMITTED 10)"
  "tonotify s_partial = []"
  by (simp_all add: s_partial_def s_unmatched_def push_orderstatus_def status_names
      record_status_def push_execution_def set_order_def new_broker_def an_execution_def
      a_status_def ledger_def)

lemma parse_time_example:
  "parse_time an_env (Some ''20240102 10:00:00 UTC'') = Inr 0"
  by (simp add: parse_time_def an_env_def)

lemma an_env_simps:
  "position_update an_env pos sz price =
     (\<lparr>p_size = fadd (p_size pos) sz, p_price = price\<rparr>,
      fadd (p_size pos) sz, price, sz, Fin 0)"
  "close0 an_env d = Fin 100"
  by (simp_all add: an_env_def)

lemma reconcile_filled_ok: "fst (reconcile an_env s_filled (a_report ''e1'')) = None"
  using s_filled_facts
  by (simp add: reconcile_def Let_def a_report_def an_execution_def an_order_def an_env_simps
      split_commission_def fdiv_def round64_examples parse_time_example)

lemma reconcile_partial_ok: "fst (reconcile an_env s_partial (a_report ''e1'')) = None"
  using s_partial_facts
  by (simp add: reconcile_def Let_def a_report_def an_execution_def an_order_def an_env_simps
      split_commission_def fdiv_def round64_examples parse_time_example)

subsection \<open>Reports that cannot be matched (claim C2)\<close>

text \<open>
  Claim C2 as stated fails: the execution is popped at line 561 before the ledger is
  read at line 564, and reading the \<^verbatim>\<open>defaultdict\<close> creates the ledger of the order.
  In \<open>s_unmatched\<close> the report finds its execution and no ledger entry; afterwards the
  execution is gone and the order has an empty ledger.
\<close>

theorem unmatched_report_consumes_execution:
  "ledger s_unmatched 1 10 = None
   \<and> push_commissionreport an_env s_unmatched (a_report ''e1'') =
       Inr (s_unmatched\<lparr>executions := Map.empty, ordstatus := [1 \<mapsto> Map.empty],
                        logged := [KeyError]\<rparr>)
   \<and> executions s_unmatched ''e1'' \<noteq> None
   \<and> ordstatus s_unmatched 1 = None"
  by (simp add: s_unmatched_def push_commissionreport_def reconcile_def Let_def ledger_def
      push_execution_def set_order_def new_broker_def an_execution_def a_report_def an_order_def)

text \<open>
  Claim C2, amended. A commission report whose execution identifier has no stored
  execution changes nothing but the log. A commission report whose execution is stored
  for a tracked order, with no ledger entry under the cumulative quantity, is logged as
  well and leaves the order table, the pending-notify list, the notification queue and
  the positions as they are; the execution is removed from the execution map and the
  ledger map holds a ledger for the order afterwards (its old one, or an empty one).
  When the order of the execution is not tracked, the execution is removed and nothing
  else changes but the log.
\<close>

theorem unmatched_report:
  "(executions s (cr_execId cr) = None \<longrightarrow>
      push_commissionreport env s cr = Inr (s\<lparr>logged := logged s @ [KeyError]\<rparr>))
   \<and> (executions s (cr_execId cr) = Some ex \<and> orderbyid s (ex_orderId ex) = Some ord
        \<and> ledger s (ex_orderId ex) (ex_cumQty ex) = None \<longrightarrow>
      push_commissionreport env s cr =
        Inr (s\<lparr>executions := (executions s)(cr_execId cr := None),
               ordstatus := (ordstatus s)(ex_orderId ex \<mapsto> ledger s (ex_orderId ex)),
               logged := logged s @ [KeyError]\<rparr>))
   \<and> (executions s (cr_execId cr) = Some ex \<and> orderbyid s (ex_orderId ex) = None \<longrightarrow>
      push_commissionreport env s cr =
        Inr (s\<lparr>executions := (executions s)(cr_execId cr := None),
               logged := logged s @ [KeyError]\<rparr>))"
  by (auto simp: push_commissionreport_def reconcile_no_execution reconcile_no_ledger
      reconcile_no_order)

theorem unmatched_report_witness:
  "push_commissionreport an_env (new_broker 7) (a_report ''e1'') =
     Inr ((new_broker 7)\<lparr>logged := [KeyError]\<rparr>)
   \<and> push_commissionreport an_env s_unmatched (a_report ''e1'') =
       Inr (s_unmatched\<lparr>executions := (executions s_unmatched)(''e1'' := None),
              ordstatus := (ordstatus s_unmatched)(1 \<mapsto> ledger s_unmatched 1),
              logged := [KeyError]\<rparr>)
   \<and> push_commissionreport an_env s_untracked (a_report ''e1'') =
       Inr (s_untracked\<lparr>executions := (executions s_untracked)(''e1'' := None),
              logged := [KeyError]\<rparr>)"
proof -
  have a: "executions (new_broker 7) (cr_execId (a_report ''e1'')) = None"
    by (simp add: new_broker_def)
  have b: "executions s_unmatched (cr_execId (a_report ''e1'')) = Some (an_execution ''e1'' 1 10 10)
      \<and> orderbyid s_unmatched (ex_orderId (an_execution ''e1'' 1 10 10)) = Some (an_order 1 Accepted)
      \<and> ledger s_unmatched (ex_orderId (an_execution ''e1'' 1 10 10))
            (ex_cumQty (an_execution ''e1'' 1 10 10)) = None"
    by (simp add: s_unmatched_def push_execution_def set_order_def new_broker_def
        an_execution_def a_report_def ledger_def)
  have c: "executions s_untracked (cr_execId (a_report ''e1'')) = Some (an_execution ''e1'' 1 10 10)
      \<and> orderbyid s_untracked (ex_orderId (an_execution ''e1'' 1 10 10)) = None"
    by (simp add: s_untracked_def push_execution_def new_broker_def an_execution_def a_report_def)
  have l: "logged (new_broker 7) = []" "logged s_unmatched = []" "logged s_untracked = []"
    by (simp_all add: s_unmatched_def s_untracked_def push_execution_def set_order_def
        new_broker_def)
  show ?thesis
    using unmatched_report[where s = "new_broker 7" and cr = "a_report ''e1''" and env = an_env,
        THEN conjunct1, THEN mp, OF a]
      unmatched_report[where s = s_unmatched and cr = "a_report ''e1''"
        and ex = "an_execution ''e1'' 1 10 10" and ord = "an_order 1 Accepted" and env = an_env,
        THEN conjunct2, THEN conjunct1, THEN mp, OF b]
      unmatched_report[where s = s_untracked and cr = "a_report ''e1''"
        and ex = "an_execution ''e1'' 1 10 10" and env = an_env,
        THEN conjunct2, THEN conjunct2, THEN mp, OF c] l
    by (simp add: a_report_def an_execution_def)
qed

subsection \<open>The split of the commission (claim C4)\<close>




subsection \<open>No exception reaches the caller (claim C5)\<close>

text \<open>
  Claim C5: \<^verbatim>\<open>push_commissionreport\<close> always returns normally. An exception raised
  in the block is logged, and the report is dropped: the order table, the pending-notify
  list and the notification queue are as before. An execution of no shares, found with
  its order and its ledger entry, raises \<^verbatim>\<open>ZeroDivisionError\<close> in the split of the
  commission, which is caught and logged like any other.
\<close>

theorem commission_report_never_raises:
  "(\<exists>s'. push_commissionreport env s cr = Inr s')
   \<and> (\<forall>e s1. reconcile env s cr = (Some e, s1) \<longrightarrow>
         push_commissionreport env s cr = Inr (s1\<lparr>logged := logged s @ [e]\<rparr>)
         \<and> orderbyid s1 = orderbyid s \<and> tonotify s1 = tonotify s \<and> notifs s1 = notifs s)
   \<and> (executions s (cr_execId cr) = Some ex \<and> orderbyid s (ex_orderId ex) = Some ord
        \<and> ledger s (ex_orderId ex) (ex_cumQty ex) = Some ostatus
        \<and> ex_side ex \<noteq> [] \<and> ex_shares ex = Fin 0 \<longrightarrow>
      (\<exists>s1. reconcile env s cr = (Some ZeroDivisionError, s1)
            \<and> push_commissionreport env s cr =
                Inr (s1\<lparr>logged := logged s @ [ZeroDivisionError]\<rparr>)))"
proof (intro conjI allI impI)
  show "\<exists>s'. push_commissionreport env s cr = Inr s'"
    by (cases "reconcile env s cr") (auto simp: push_commissionreport_def split: option.splits)
next
  fix e s1 assume r: "reconcile env s cr = (Some e, s1)"
  from reconcile_failure_frame[OF r]
  show "push_commissionreport env s cr = Inr (s1\<lparr>logged := logged s @ [e]\<rparr>)"
    and "orderbyid s1 = orderbyid s" and "tonotify s1 = tonotify s" and "notifs s1 = notifs s"
    using r by (simp_all add: push_commissionreport_def)
next
  assume a: "executions s (cr_execId cr) = Some ex \<and> orderbyid s (ex_orderId ex) = Some ord
        \<and> ledger s (ex_orderId ex) (ex_cumQty ex) = Some ostatus
        \<and> ex_side ex \<noteq> [] \<and> ex_shares ex = Fin 0"
  then have "fst (reconcile env s cr) = Some ZeroDivisionError"
    using reconcile_zero_size[of s cr ex ord ostatus env] by simp
  then obtain s1 where r: "reconcile env s cr = (Some ZeroDivisionError, s1)"
    by (cases "reconcile env s cr") simp
  from reconcile_failure_frame[OF r] r
  show "\<exists>s1. reconcile env s cr = (Some ZeroDivisionError, s1)
            \<and> push_commissionreport env s cr =
                Inr (s1\<lparr>logged := logged s @ [ZeroDivisionError]\<rparr>)"
    by (simp add: push_commissionreport_def)
qed

theorem commission_report_never_raises_witness:
  "map_sum id logged (push_commissionreport an_env s_zero (a_report ''e0'')) =
     Inr [ZeroDivisionError]"
proof -
  have h: "executions s_zero (cr_execId (a_report ''e0'')) = Some (an_execution ''e0'' 1 10 0)
      \<and> orderbyid s_zero (ex_orderId (an_execution ''e0'' 1 10 0)) = Some (an_order 1 Accepted)
      \<and> ledger s_zero (ex_orderId (an_execution ''e0'' 1 10 0))
            (ex_cumQty (an_execution ''e0'' 1 10 0)) = Some (a_status 1 FILLED 10)
      \<and> ex_side (an_execution ''e0'' 1 10 0) \<noteq> []
      \<and> ex_shares (an_execution ''e0'' 1 10 0) = Fin 0"
    using s_zero_facts by (simp add: a_report_def an_execution_def)
  from commission_report_never_raises[where env = an_env and s = s_zero
      and cr = "a_report ''e0''" and ex = "an_execution ''e0'' 1 10 0"
      and ord = "an_order 1 Accepted" and ostatus = "a_status 1 FILLED 10",
      THEN conjunct2, THEN conjunct2, THEN mp, OF h]
  show ?thesis using s_zero_facts(4) by auto
qed

subsection \<open>Completed or partial (claim C6)\<close>

lemma s_zero_ledger: "(ledger s_zero 1)(10 := None) = Map.empty"
  by (simp add: s_zero_def push_orderstatus_def status_names record_status_def
      push_execution_def set_order_def new_broker_def a_status_def ledger_def)

lemma reconcile_zero_example:
  "fst (reconcile an_env s_zero (a_report ''e0'')) = Some ZeroDivisionError"
  "orderbyid (snd (reconcile an_env s_zero (a_report ''e0''))) 1 = Some (an_order 1 Accepted)"
  "ordstatus (snd (reconcile an_env s_zero (a_report ''e0''))) 1 = Some Map.empty"
  "logged (snd (reconcile an_env s_zero (a_report ''e0''))) = []"
  using s_zero_facts s_zero_ledger
  by (simp_all add: reconcile_def Let_def a_report_def an_execution_def an_order_def
      an_env_simps split_commission_zero)

text \<open>
  Claim C6 as stated fails: between the join of the ledger entry (line 564) and the
  test of its status (line 609) an exception can leave the block. In \<open>s_zero\<close> the entry
  joined for the fill has status Filled and the fill has no shares: the split of the
  commission raises, the report is dropped, and the order is still Accepted with its
  (now empty) ledger in the ledger map.
\<close>

theorem filled_entry_not_completed:
  "ledger s_zero 1 10 = Some (a_status 1 FILLED 10)
   \<and> m_status (a_status 1 FILLED 10) = FILLED
   \<and> push_commissionreport an_env s_zero (a_report ''e0'') =
       Inr ((snd (reconcile an_env s_zero (a_report ''e0'')))\<lparr>logged := [ZeroDivisionError]\<rparr>)
   \<and> status_of (snd (reconcile an_env s_zero (a_report ''e0''))) 1 = Some Accepted
   \<and> ordstatus (snd (reconcile an_env s_zero (a_report ''e0''))) 1 = Some Map.empty"
proof -
  obtain s1 where r: "reconcile an_env s_zero (a_report ''e0'') = (Some ZeroDivisionError, s1)"
    using reconcile_zero_example(1) by (cases "reconcile an_env s_zero (a_report ''e0'')") simp
  then have s: "snd (reconcile an_env s_zero (a_report ''e0'')) = s1" by simp
  have l: "logged s1 = []" using reconcile_zero_example(4) s by simp
  have p: "push_commissionreport an_env s_zero (a_report ''e0'') =
           Inr (s1\<lparr>logged := [ZeroDivisionError]\<rparr>)"
    using r l by (simp add: push_commissionreport_def)
  show ?thesis
    unfolding s
    using s_zero_facts(3) p reconcile_zero_example(2,3)[unfolded s]
    by (simp add: status_of_def a_status_def an_order_def)
qed

text \<open>
  Claim C6, amended. When no exception is raised in the steps before (the
  reconciliation of the report goes through), and the ledger entry joined for the fill
  has status Filled, the order is Completed and its whole entry of the ledger map is
  removed; with any other stored status the order is Partial and its ledger keeps the
  remaining entries.
\<close>

theorem filled_completes:
  assumes "reconcile env s cr = (None, s1)" and "executions s (cr_execId cr) = Some ex"
    and "ledger s (ex_orderId ex) (ex_cumQty ex) = Some ostatus"
  shows "(m_status ostatus = FILLED \<longrightarrow>
            status_of s1 (ex_orderId ex) = Some Completed \<and> ordstatus s1 (ex_orderId ex) = None)
       \<and> (m_status ostatus \<noteq> FILLED \<longrightarrow>
            status_of s1 (ex_orderId ex) = Some Partial
            \<and> ordstatus s1 (ex_orderId ex) =
                Some ((ledger s (ex_orderId ex))(ex_cumQty ex := None)))"
  using reconcile_success_status[OF assms] .

theorem filled_completes_witness:
  "status_of (snd (reconcile an_env s_filled (a_report ''e1''))) 1 = Some Completed
   \<and> ordstatus (snd (reconcile an_env s_filled (a_report ''e1''))) 1 = None
   \<and> status_of (snd (reconcile an_env s_partial (a_report ''e1''))) 1 = Some Partial
   \<and> ordstatus (snd (reconcile an_env s_partial (a_report ''e1''))) 1 = Some Map.empty"
proof -
  have f: "reconcile an_env s_filled (a_report ''e1'') =
           (None, snd (reconcile an_env s_filled (a_report ''e1'')))"
    using reconcile_filled_ok by (simp add: prod_eq_iff)
  have p: "reconcile an_env s_partial (a_report ''e1'') =
           (None, snd (reconcile an_env s_partial (a_report ''e1'')))"
    using reconcile_partial_ok by (simp add: prod_eq_iff)
  have ef: "executions s_filled (cr_execId (a_report ''e1'')) = Some (an_execution ''e1'' 1 10 10)"
    using s_filled_facts by (simp add: a_report_def)
  have ep: "executions s_partial (cr_execId (a_report ''e1'')) = Some (an_execution ''e1'' 1 10 10)"
    using s_partial_facts by (simp add: a_report_def)
  have lf: "ledger s_filled (ex_orderId (an_execution ''e1'' 1 10 10))
              (ex_cumQty (an_execution ''e1'' 1 10 10)) = Some (a_status 1 FILLED 10)"
    using s_filled_facts by (simp add: an_execution_def)
  have lp: "ledger s_partial (ex_orderId (an_execution ''e1'' 1 10 10))
              (ex_cumQty (an_execution ''e1'' 1 10 10)) = Some (a_status 1 SUBMITTED 10)"
    using s_partial_facts by (simp add: an_execution_def)
  have lp': "(ledger s_partial 1)(10 := None) = Map.empty"
    by (simp add: s_partial_def s_unmatched_def push_orderstatus_def status_names
      record_status_def push_execution_def set_order_def new_broker_def a_status_def ledger_def)
  show ?thesis
    using filled_completes[OF f ef lf] filled_completes[OF p ep lp] lp'
    by (simp add: an_execution_def a_status_def SUBMITTED_def FILLED_def)
qed

subsection \<open>Deferred notification (claim C7)\<close>

text \<open>
  Claim C7: a reconciliation that goes through puts nothing on the notification queue;
  it appends the order identifier to the pending-notify list unless it is there already,
  so that a list without duplicates stays without duplicates. The next portfolio update
  then puts one notification per pending identifier on the queue, in order, and leaves
  the list empty.
\<close>

theorem fill_notification_deferred:
  assumes "reconcile env s cr = (None, s1)" and "executions s (cr_execId cr) = Some ex"
    and "distinct (tonotify s)" and "set (tonotify s) \<subseteq> dom (orderbyid s)"
  shows "notifs s1 = notifs s
       \<and> tonotify s1 = (if ex_orderId ex \<in> set (tonotify s) then tonotify s
                        else tonotify s @ [ex_orderId ex])
       \<and> distinct (tonotify s1)
       \<and> push_portupdate s1 =
           Inr (s1\<lparr>notifs := notifs s1 @ map (\<lambda>i. Some (the (orderbyid s1 i))) (tonotify s1),
                  tonotify := []\<rparr>)"
proof -
  note r = reconcile_success_notify[OF assms(1,2)]
  have sub: "set (tonotify s1) \<subseteq> dom (orderbyid s1)"
    using r assms(4) by (auto split: if_splits)
  have d: "distinct (tonotify s1)" using r assms(3) by simp
  show ?thesis using r d drain_all[OF sub] by (simp add: push_portupdate_def)
qed

theorem fill_notification_deferred_witness:
  "notifs (snd (reconcile an_env s_filled (a_report ''e1''))) = notifs s_filled
   \<and> tonotify (snd (reconcile an_env s_filled (a_report ''e1''))) = [1]
   \<and> map_sum id tonotify (push_portupdate (snd (reconcile an_env s_filled (a_report ''e1'')))) = Inr []
   \<and> map_sum id (\<lambda>s. length (notifs s))
        (push_portupdate (snd (reconcile an_env s_filled (a_report ''e1''))))
       = Inr (length (notifs s_filled) + 1)"
proof -
  have f: "reconcile an_env s_filled (a_report ''e1'') =
           (None, snd (reconcile an_env s_filled (a_report ''e1'')))"
    using reconcile_filled_ok by (simp add: prod_eq_iff)
  have ef: "executions s_filled (cr_execId (a_report ''e1'')) = Some (an_execution ''e1'' 1 10 10)"
    using s_filled_facts by (simp add: a_report_def)
  have d: "distinct (tonotify s_filled)" "set (tonotify s_filled) \<subseteq> dom (orderbyid s_filled)"
    using s_filled_facts by simp_all
  show ?thesis
    using fill_notification_deferred[OF f ef d] s_filled_facts(4)
    by (simp add: an_execution_def)
qed

section \<open>Cancellation is forwarded only (claim C8)\<close>

text \<open>
  Claim C8: \<^verbatim>\<open>cancel\<close> changes nothing in the broker but the requests sent to the
  gateway, to which it adds at most the cancellation of the order: the order table, the
  ledger, the execution map, the notification queue, the pending-notify list and the
  positions are the same, for every order.
\<close>

theorem cancel_changes_nothing:
  "cancel s ord = s\<lparr>cancel_requests := cancel_requests (cancel s ord)\<rparr>
   \<and> (cancel_requests (cancel s ord) = cancel_requests s
      \<or> cancel_requests (cancel s ord) = cancel_requests s @ [orderId ord])
   \<and> orderbyid (cancel s ord) = orderbyid s
   \<and> ordstatus (cancel s ord) = ordstatus s
   \<and> executions (cancel s ord) = executions s
   \<and> notifs (cancel s ord) = notifs s
   \<and> tonotify (cancel s ord) = tonotify s
   \<and> positions (cancel s ord) = positions s"
  by (cases "orderbyid s (orderId ord)") (simp_all add: cancel_def)

section \<open>Open orders (claims C9 and C10)\<close>

text \<open>
  Claim C9: an open-order snapshot whose order identifier is in the order table is
  ignored by \<^verbatim>\<open>push_openorder\<close>: the state of the broker, with its order table, its
  queue of snapshots and its notification queue, is unchanged.
\<close>

theorem known_openorder_ignored:
  assumes "oo_orderId msg \<in> dom (orderbyid s)"
  shows "push_openorder s (Some msg) = s"
  using assms by (simp add: push_openorder_def)

theorem known_openorder_ignored_witness:
  "push_openorder (set_order (new_broker 7) 1 (an_order 1 Accepted)) (Some (an_openorder 1 7))
   = set_order (new_broker 7) 1 (an_order 1 Accepted)"
  by (rule known_openorder_ignored) (simp add: an_openorder_def)

text \<open>
  Claim C10: a snapshot of another client leaves \<^verbatim>\<open>rebuild_iborder_from_open_order\<close>
  with the state unchanged: the order store is not read, no order is registered or
  notified, nothing is printed. A snapshot of the own client whose permanent identifier
  is not in the store is looked up and reported by a printed error line.
\<close>

theorem foreign_openorder_filtered:
  "(oo_clientId msg \<noteq> clientId s \<longrightarrow> rebuild_iborder_from_open_order s msg = s)
   \<and> (oo_clientId msg = clientId s \<and> saved s (oo_permId msg) = None \<longrightarrow>
        rebuild_iborder_from_open_order s msg =
          s\<lparr>loads := loads s @ [oo_permId msg],
            printed := printed s @ [CannotLoad (oo_orderId msg) (oo_symbol msg) (oo_status msg)]\<rparr>)"
  by (simp add: rebuild_iborder_from_open_order_def load_order_def)

theorem foreign_openorder_filtered_witness:
  "rebuild_iborder_from_open_order (new_broker 7) (an_openorder 1 8) = new_broker 7
   \<and> rebuild_iborder_from_open_order (new_broker 7) (an_openorder 1 7) =
       (new_broker 7)\<lparr>loads := [''4711''], printed := [CannotLoad 1 ''AAPL'' ''Submitted'']\<rparr>"
proof -
  have a: "oo_clientId (an_openorder 1 8) \<noteq> clientId (new_broker 7)"
    by (simp add: an_openorder_def new_broker_def)
  have b: "oo_clientId (an_openorder 1 7) = clientId (new_broker 7)
           \<and> saved (new_broker 7) (oo_permId (an_openorder 1 7)) = None"
    by (simp add: an_openorder_def new_broker_def)
  show ?thesis
    using foreign_openorder_filtered[of "an_openorder 1 8" "new_broker 7", THEN conjunct1, THEN mp, OF a]
      foreign_openorder_filtered[of "an_openorder 1 7" "new_broker 7", THEN conjunct2, THEN mp, OF b]
    by (simp add: an_openorder_def new_broker_def)
qed

end
